theory Spec2Isabelle
  imports Complex_Main "HOL-Library.Word"
begin

section \<open>ScoopMath: fixed-size vectors and matrices\<close>

text \<open>
  The library has two class templates, \<^verbatim>\<open>Vector<Type, Size>\<close> (Math/Vector.hpp) and
  \<^verbatim>\<open>Matrix<Type, Rows, Cols>\<close> (Math/Matrix.hpp). Each object is one C array
  \<^verbatim>\<open>Type data[...]\<close>. The embedding keeps the array as a list and passes the
  template parameters \<^verbatim>\<open>Size\<close>, \<^verbatim>\<open>Rows\<close>, \<^verbatim>\<open>Cols\<close> as explicit arguments. A member
  function that mutates the object returns the new array; one that can throw returns a
  sum whose left side is the error.

  A default-constructed object (\<^verbatim>\<open>Matrix() = default\<close>) has indeterminate contents: the
  functions that start from one take those contents as the argument \<open>init\<close>.
\<close>

subsection \<open>Errors, machine sizes, memory copy, loops\<close>

text \<open>
  \<open>SizeMismatch\<close> is the exception of the two \<^verbatim>\<open>Assign(const std::vector<Type>&)\<close>,
  \<open>IndexOutOfRange\<close> the one of the checked accessors \<^verbatim>\<open>At\<close>, \<open>ShapeMismatch\<close> the one
  of \<^verbatim>\<open>AsVector\<close>. The other two are not thrown by any code. \<open>UndefinedBehaviour\<close> marks a
  read of a raw C array past its end or an overflow of signed integer arithmetic.
  \<open>IllFormed\<close> marks a member function whose body the compiler rejects when the function
  is instantiated, so that no call of it exists.
\<close>

datatype error =
  SizeMismatch | IndexOutOfRange | ShapeMismatch | UndefinedBehaviour | IllFormed

text \<open>\<^verbatim>\<open>size_t\<close> arithmetic, taken as 64 bits wide: results wrap modulo \<open>2 ^ 64\<close>.\<close>

definition size_t :: "nat \<Rightarrow> nat" where
  "size_t n = n mod 2 ^ 64"

text \<open>
  \<^verbatim>\<open>std::memcpy(dst, src, sizeof(Type) * n)\<close>: the first \<open>n\<close> elements of \<open>dst\<close> are
  replaced by the first \<open>n\<close> elements of \<open>src\<close>.
\<close>

definition memcpy :: "'a list \<Rightarrow> 'a list \<Rightarrow> nat \<Rightarrow> 'a list" where
  "memcpy dst src n = take n src @ drop n dst"

text \<open>A raw array read \<^verbatim>\<open>arr[i]\<close> with no bounds check.\<close>

definition raw_read :: "'a list \<Rightarrow> nat \<Rightarrow> error + 'a" where
  "raw_read arr i = (if i < length arr then Inr (arr ! i) else Inl UndefinedBehaviour)"

text \<open>Sequencing of computations that may throw.\<close>

definition bind_result :: "error + 'a \<Rightarrow> ('a \<Rightarrow> error + 'b) \<Rightarrow> error + 'b" where
  "bind_result m f = (case m of Inl e \<Rightarrow> Inl e | Inr x \<Rightarrow> f x)"

text \<open>
  \<^verbatim>\<open>for (size_t i = a; i < n; i++) body\<close>, as a function on the state the body updates:
  \<open>for_loop\<close> for a body that cannot throw, \<open>for_loop_err\<close> for one that can (the loop
  stops at the first exception).
\<close>

function for_loop :: "nat \<Rightarrow> nat \<Rightarrow> (nat \<Rightarrow> 's \<Rightarrow> 's) \<Rightarrow> 's \<Rightarrow> 's" where
  "for_loop i n body s = (if i < n then for_loop (i + 1) n body (body i s) else s)"
  by pat_completeness auto
termination
  by (relation "measure (\<lambda>(i, n, body, s). n - i)") auto

function for_loop_err ::
  "nat \<Rightarrow> nat \<Rightarrow> (nat \<Rightarrow> 's \<Rightarrow> error + 's) \<Rightarrow> 's \<Rightarrow> error + 's" where
  "for_loop_err i n body s =
     (if i < n then
        (case body i s of Inl e \<Rightarrow> Inl e | Inr s' \<Rightarrow> for_loop_err (i + 1) n body s')
      else Inr s)"
  by pat_completeness auto
termination
  by (relation "measure (\<lambda>(i, n, body, s). n - i)") auto

declare for_loop.simps [simp del]
declare for_loop_err.simps [simp del]

subsection \<open>Element types\<close>

text \<open>
  Most member functions are modelled once for every \<open>Type\<close> whose \<open>+\<close>, \<open>-\<close>, \<open>*\<close> are
  operations of one HOL type. \<^verbatim>\<open>double\<close> is such a type: a value is a finite number, an
  infinity or NaN. A finite result whose magnitude reaches \<open>DBL_OVERFLOW\<close>, the least
  magnitude that rounds to infinity, overflows. Rounding inside the finite range and the
  sign of zero are left out: a finite result is kept as the exact real.
\<close>

datatype double = Finite real | PosInf | NegInf | NaN

definition DBL_OVERFLOW :: real where
  "DBL_OVERFLOW = 2 ^ 1024 - 2 ^ 970"

definition double_of_real :: "real \<Rightarrow> double" where
  "double_of_real x =
     (if DBL_OVERFLOW \<le> x then PosInf else if x \<le> - DBL_OVERFLOW then NegInf else Finite x)"

instantiation double :: "{zero, one, uminus, plus, minus, times}"
begin

definition zero_double :: double where
  "zero_double = Finite 0"

definition one_double :: double where
  "one_double = Finite 1"

fun uminus_double :: "double \<Rightarrow> double" where
  "uminus_double (Finite x) = Finite (- x)"
| "uminus_double PosInf = NegInf"
| "uminus_double NegInf = PosInf"
| "uminus_double NaN = NaN"

fun plus_double :: "double \<Rightarrow> double \<Rightarrow> double" where
  "plus_double (Finite x) (Finite y) = double_of_real (x + y)"
| "plus_double NaN _ = NaN"
| "plus_double _ NaN = NaN"
| "plus_double PosInf NegInf = NaN"
| "plus_double NegInf PosInf = NaN"
| "plus_double PosInf _ = PosInf"
| "plus_double _ PosInf = PosInf"
| "plus_double NegInf _ = NegInf"
| "plus_double _ NegInf = NegInf"

definition minus_double :: "double \<Rightarrow> double \<Rightarrow> double" where
  "minus_double x y = x + (- y)"

fun times_double :: "double \<Rightarrow> double \<Rightarrow> double" where
  "times_double (Finite x) (Finite y) = double_of_real (x * y)"
| "times_double NaN _ = NaN"
| "times_double _ NaN = NaN"
| "times_double PosInf (Finite y) = (if y = 0 then NaN else if 0 < y then PosInf else NegInf)"
| "times_double NegInf (Finite y) = (if y = 0 then NaN else if 0 < y then NegInf else PosInf)"
| "times_double (Finite x) PosInf = (if x = 0 then NaN else if 0 < x then PosInf else NegInf)"
| "times_double (Finite x) NegInf = (if x = 0 then NaN else if 0 < x then NegInf else PosInf)"
| "times_double PosInf PosInf = PosInf"
| "times_double PosInf NegInf = NegInf"
| "times_double NegInf PosInf = NegInf"
| "times_double NegInf NegInf = PosInf"

instance ..

end

text \<open>\<^verbatim>\<open>sqrt\<close> of \<^verbatim>\<open><cmath>\<close> on a \<^verbatim>\<open>double\<close>: NaN for a negative argument.\<close>

fun sqrt_double :: "double \<Rightarrow> double" where
  "sqrt_double (Finite x) = (if x < 0 then NaN else Finite (sqrt x))"
| "sqrt_double PosInf = PosInf"
| "sqrt_double NegInf = NaN"
| "sqrt_double NaN = NaN"


text \<open>
  An expression over an integer \<open>Type\<close> is not evaluated in \<open>Type\<close> when \<open>Type\<close> is
  narrower than \<^verbatim>\<open>int\<close>, so what \<^verbatim>\<open>Magnitude\<close> does with its accumulator is given per
  element type, as a record: the value of \<^verbatim>\<open>Type sum = 0\<close>, the statement
  \<^verbatim>\<open>sum += element * element\<close>, and the conversion of \<^verbatim>\<open>sum\<close> to the \<^verbatim>\<open>double\<close> argument of
  \<^verbatim>\<open>sqrt\<close>.
\<close>

record 'a scalar_ops =
  lit0 :: 'a
  add_square :: "'a \<Rightarrow> 'a \<Rightarrow> error + 'a"
  as_double :: "'a \<Rightarrow> double"

text \<open>
  Integer element types, a value being the integer it denotes; \<open>is_signed\<close> tells a signed type
  from an unsigned one and \<open>w\<close> is the width in bits. \<^verbatim>\<open>int\<close> is taken as 32 bits wide.
  \<^item> \<open>w < 32\<close> (\<^verbatim>\<open>int8_t\<close>, \<^verbatim>\<open>uint8_t\<close>, \<^verbatim>\<open>int16_t\<close>, \<^verbatim>\<open>uint16_t\<close>): the operands are
    promoted to \<^verbatim>\<open>int\<close>; product and sum are \<^verbatim>\<open>int\<close> operations, undefined when they
    overflow; the sum is converted back to \<open>Type\<close> modulo \<open>2 ^ w\<close>.
  \<^item> signed, \<open>w \<ge> 32\<close> (\<^verbatim>\<open>int32_t\<close>, \<^verbatim>\<open>int64_t\<close>): product and sum are undefined when they
    leave the range of \<open>Type\<close>.
  \<^item> unsigned, \<open>w \<ge> 32\<close> (\<^verbatim>\<open>uint32_t\<close>, \<^verbatim>\<open>uint64_t\<close>): product and sum wrap modulo \<open>2 ^ w\<close>.
  The conversion of an integer to \<^verbatim>\<open>double\<close> is taken as exact.
\<close>

definition in_signed_range :: "nat \<Rightarrow> int \<Rightarrow> bool" where
  "in_signed_range w x = (- (2 ^ (w - 1)) \<le> x \<and> x \<le> 2 ^ (w - 1) - 1)"

definition narrow :: "bool \<Rightarrow> nat \<Rightarrow> int \<Rightarrow> int" where
  "narrow is_signed w x =
     (if is_signed then (x + 2 ^ (w - 1)) mod 2 ^ w - 2 ^ (w - 1) else x mod 2 ^ w)"

definition int_add_square :: "bool \<Rightarrow> nat \<Rightarrow> int \<Rightarrow> int \<Rightarrow> error + int" where
  "int_add_square is_signed w acc element =
     (if w < 32 then
        (let p = element * element in
         if \<not> in_signed_range 32 p then Inl UndefinedBehaviour
         else let s = acc + p in
           if \<not> in_signed_range 32 s then Inl UndefinedBehaviour
           else Inr (narrow is_signed w s))
      else if is_signed then
        (let p = element * element in
         if \<not> in_signed_range w p then Inl UndefinedBehaviour
         else let s = acc + p in
           if \<not> in_signed_range w s then Inl UndefinedBehaviour
           else Inr s)
      else Inr ((acc + element * element mod 2 ^ w) mod 2 ^ w))"

definition int_ops :: "bool \<Rightarrow> nat \<Rightarrow> int scalar_ops" where
  "int_ops is_signed w =
     \<lparr>lit0 = 0, add_square = int_add_square is_signed w,
      as_double = (\<lambda>n. Finite (real_of_int n))\<rparr>"

definition double_ops :: "double scalar_ops" where
  "double_ops = \<lparr>lit0 = 0, add_square = (\<lambda>acc element. Inr (acc + element * element)),
     as_double = (\<lambda>x. x)\<rparr>"

subsection \<open>Vector\<close>

text \<open>
  \<^verbatim>\<open>void Assign(const std::vector<Type> &values)\<close>: the size check, then the copy. The
  result is the outcome together with the array after the call, so that the array is
  visible also when the call throws.
\<close>

definition Vector_Assign_values ::
  "nat \<Rightarrow> 'a list \<Rightarrow> 'a list \<Rightarrow> (error + unit) \<times> 'a list" where
  "Vector_Assign_values Size data values =
     (if length values \<noteq> Size then (Inl SizeMismatch, data)
      else (Inr (), memcpy data values Size))"

text \<open>\<^verbatim>\<open>Type &At(size_t index)\<close>, read through the returned reference.\<close>

definition Vector_At :: "nat \<Rightarrow> 'a list \<Rightarrow> nat \<Rightarrow> error + 'a" where
  "Vector_At Size data index =
     (if index \<ge> Size then Inl IndexOutOfRange else Inr (data ! index))"

text \<open>
  \<^verbatim>\<open>double Magnitude() const\<close>: the accumulator is declared \<^verbatim>\<open>Type sum = 0\<close>, the loop
  runs \<^verbatim>\<open>sum += element * element\<close> over the elements, and the result is \<^verbatim>\<open>sqrt(sum)\<close>.
\<close>

definition Vector_Magnitude :: "'a scalar_ops \<Rightarrow> nat \<Rightarrow> 'a list \<Rightarrow> error + double" where
  "Vector_Magnitude ops Size data =
     bind_result
       (for_loop_err 0 Size (\<lambda>i sum. add_square ops sum (data ! i)) (lit0 ops))
       (\<lambda>sum. Inr (sqrt_double (as_double ops sum)))"




subsection \<open>Matrix\<close>

text \<open>
  \<^verbatim>\<open>void Assign(const std::vector<Type> &values)\<close>. After the size check the source
  calls \<^verbatim>\<open>std::memcpy(this->data, data, sizeof(Type) * Rows * Cols)\<close>: inside the member
  function the name \<^verbatim>\<open>data\<close> is the member \<^verbatim>\<open>this->data\<close>, so source and destination of
  the copy are the same array and \<^verbatim>\<open>values\<close> is never read.
\<close>

definition Matrix_Assign_values ::
  "nat \<Rightarrow> nat \<Rightarrow> 'a list \<Rightarrow> 'a list \<Rightarrow> (error + unit) \<times> 'a list" where
  "Matrix_Assign_values Rows Cols data values =
     (if length values \<noteq> size_t (Rows * Cols) then (Inl SizeMismatch, data)
      else (Inr (), memcpy data data (size_t (Rows * Cols))))"

text \<open>\<^verbatim>\<open>Type &At(size_t index)\<close>, read through the returned reference.\<close>

definition Matrix_At :: "nat \<Rightarrow> nat \<Rightarrow> 'a list \<Rightarrow> nat \<Rightarrow> error + 'a" where
  "Matrix_At Rows Cols data index =
     (if index \<ge> size_t (Rows * Cols) then Inl IndexOutOfRange else Inr (data ! index))"

text \<open>
  \<^verbatim>\<open>void Assign(Type diagonal)\<close>: the counter \<open>i\<close> runs through the array while \<open>row\<close>
  is the outer and \<open>col\<close> the inner loop variable.
\<close>

definition Matrix_Assign_diagonal :: "nat \<Rightarrow> nat \<Rightarrow> 'a list \<Rightarrow> 'a::zero \<Rightarrow> 'a list" where
  "Matrix_Assign_diagonal Rows Cols data diagonal =
     snd (for_loop 0 Rows (\<lambda>row.
            for_loop 0 Cols (\<lambda>col (i, d).
              (i + 1, d[i := (if row = col then diagonal else 0)])))
          (0, data))"

text \<open>
  The constructors \<^verbatim>\<open>Matrix(Type diagonal)\<close> and \<^verbatim>\<open>Matrix(const std::vector<Type>&)\<close>
  call the matching \<^verbatim>\<open>Assign\<close> on the fresh object; a constructor that throws yields no
  object.
\<close>

definition Matrix_ctor_diagonal :: "nat \<Rightarrow> nat \<Rightarrow> 'a list \<Rightarrow> 'a::zero \<Rightarrow> 'a list" where
  "Matrix_ctor_diagonal Rows Cols init diagonal = Matrix_Assign_diagonal Rows Cols init diagonal"

definition Matrix_ctor_values :: "nat \<Rightarrow> nat \<Rightarrow> 'a list \<Rightarrow> 'a list \<Rightarrow> error + 'a list" where
  "Matrix_ctor_values Rows Cols init values =
     (case Matrix_Assign_values Rows Cols init values of
        (Inl e, _) \<Rightarrow> Inl e
      | (Inr _, data) \<Rightarrow> Inr data)"

text \<open>
  \<^verbatim>\<open>Type &At(size_t row, size_t col) { return this->At(col * Rows + row); }\<close>, the index
  computed in \<^verbatim>\<open>size_t\<close>.
\<close>

definition Matrix_At_rc :: "nat \<Rightarrow> nat \<Rightarrow> 'a list \<Rightarrow> nat \<Rightarrow> nat \<Rightarrow> error + 'a" where
  "Matrix_At_rc Rows Cols data row col = Matrix_At Rows Cols data (size_t (col * Rows + row))"

text \<open>An assignment through the reference that \<^verbatim>\<open>At\<close> returns: \<^verbatim>\<open>m.At(...) = v\<close>.\<close>

definition Matrix_At_write :: "nat \<Rightarrow> nat \<Rightarrow> 'a list \<Rightarrow> nat \<Rightarrow> 'a \<Rightarrow> error + 'a list" where
  "Matrix_At_write Rows Cols data index v =
     (if index \<ge> size_t (Rows * Cols) then Inl IndexOutOfRange else Inr (data[index := v]))"

definition Matrix_At_rc_write ::
  "nat \<Rightarrow> nat \<Rightarrow> 'a list \<Rightarrow> nat \<Rightarrow> nat \<Rightarrow> 'a \<Rightarrow> error + 'a list" where
  "Matrix_At_rc_write Rows Cols data row col v =
     Matrix_At_write Rows Cols data (size_t (col * Rows + row)) v"

text \<open>
  The declaration of a matrix object with an argument list selects a constructor by the
  arguments. The class declares \<^verbatim>\<open>Matrix() = default\<close>, \<^verbatim>\<open>explicit Matrix(Type diagonal)\<close>
  and \<^verbatim>\<open>explicit Matrix(const std::vector<Type> &values)\<close>; with the implicit copy and
  move constructors these are all, and each takes at most one argument. An argument list
  of two sizes selects none of them: the declaration is ill-formed.
\<close>

datatype 'a ctor_args =
  NoArgs | DiagonalArg 'a | ValuesArg "'a list" | TwoSizeArgs nat nat

definition Matrix_construct ::
  "nat \<Rightarrow> nat \<Rightarrow> 'a list \<Rightarrow> 'a::zero ctor_args \<Rightarrow> error + 'a list" where
  "Matrix_construct Rows Cols init args =
     (case args of
        NoArgs \<Rightarrow> Inr init
      | DiagonalArg diagonal \<Rightarrow> Inr (Matrix_ctor_diagonal Rows Cols init diagonal)
      | ValuesArg values \<Rightarrow> Matrix_ctor_values Rows Cols init values
      | TwoSizeArgs m n \<Rightarrow> Inl IllFormed)"

text \<open>
  \<^verbatim>\<open>Matrix<Type, Cols, Rows> Transpose() const\<close>. Its first statement is the declaration
  \<^verbatim>\<open>Matrix<Type, Cols, Rows> newMat(Cols, Rows);\<close>, its second the loop nest
  \<open>Matrix_Transpose_body\<close>, in which \<open>newMat\<close> is accessed as a matrix with \<open>Cols\<close> rows and
  \<open>Rows\<close> columns.
\<close>

definition Matrix_Transpose_body ::
  "nat \<Rightarrow> nat \<Rightarrow> 'a list \<Rightarrow> 'a list \<Rightarrow> error + 'a list" where
  "Matrix_Transpose_body Rows Cols newMat data =
     for_loop_err 0 Rows (\<lambda>row.
       for_loop_err 0 Cols (\<lambda>col newMat.
         bind_result (Matrix_At_rc Rows Cols data row col) (\<lambda>x.
           Matrix_At_rc_write Cols Rows newMat col row x)))
       newMat"

definition Matrix_Transpose ::
  "nat \<Rightarrow> nat \<Rightarrow> 'a list \<Rightarrow> 'a::zero list \<Rightarrow> error + 'a list" where
  "Matrix_Transpose Rows Cols init data =
     bind_result (Matrix_construct Cols Rows init (TwoSizeArgs Cols Rows)) (\<lambda>newMat.
       Matrix_Transpose_body Rows Cols newMat data)"


text \<open>
  \<^verbatim>\<open>Vector<Type, Rows> Multiply(const Vector<Type, Rows> &vec) const\<close>. The argument is
  a vector of \<open>Rows\<close> elements; the inner loop reads the raw array \<^verbatim>\<open>vec.data[col]\<close> for
  every \<open>col < Cols\<close>. \<open>newVec\<close> is default-constructed and has \<open>Rows\<close> elements.
\<close>

definition Matrix_Multiply_vec ::
  "nat \<Rightarrow> nat \<Rightarrow> 'a list \<Rightarrow> 'a::{zero,plus,times} list \<Rightarrow> 'a list \<Rightarrow> error + 'a list" where
  "Matrix_Multiply_vec Rows Cols init data vec =
     for_loop_err 0 Rows (\<lambda>row newVec.
       bind_result
         (for_loop_err 0 Cols (\<lambda>col dot.
            bind_result (Matrix_At_rc Rows Cols data row col) (\<lambda>x.
            bind_result (raw_read vec col) (\<lambda>y.
              Inr (dot + x * y))))
          0)
         (\<lambda>dot. Inr (newVec[row := dot])))
       init"


text \<open>
  \<^verbatim>\<open>static Matrix<Type, 4, 4> Translation(const Vector<Type, 3> &delta)\<close>: the
  sixteen-element sequence handed to the constructor from a sequence.
\<close>

definition Matrix_Translation :: "'a list \<Rightarrow> 'a::{zero,one} list \<Rightarrow> error + 'a list" where
  "Matrix_Translation init delta =
     Matrix_ctor_values 4 4 init
       [1, 0, 0, 0,
        0, 1, 0, 0,
        0, 0, 1, 0,
        delta ! 0, delta ! 1, delta ! 2, 1]"


section \<open>Properties\<close>

subsection \<open>Helper facts\<close>

lemma size_t_id: "n < 2 ^ 64 \<Longrightarrow> size_t n = n"
  by (simp add: size_t_def)

lemmas run_defs = for_loop.simps for_loop_err.simps bind_result_def size_t_def raw_read_def
  Matrix_At_def Matrix_At_rc_def Matrix_At_write_def Matrix_At_rc_write_def

lemma flat_index_less:
  "row < Rows \<Longrightarrow> col < Cols \<Longrightarrow> col * Rows + row < Rows * (Cols::nat)"
proof -
  assume r: "row < Rows" and c: "col < Cols"
  have "col * Rows + row < col * Rows + Rows" using r by simp
  also have "\<dots> = Suc col * Rows" by simp
  also have "\<dots> \<le> Cols * Rows" using c by (intro mult_le_mono1) simp
  finally show ?thesis by (simp add: mult.commute)
qed

subsubsection \<open>Loops as folds\<close>

lemma for_loop_fold: "for_loop i n body s = fold body [i..<n] s"
proof (induction i n body s rule: for_loop.induct)
  case (1 i n body s)
  show ?case
  proof (cases "i < n")
    case True
    then show ?thesis using 1 by (subst for_loop.simps) (simp add: upt_conv_Cons)
  next
    case False
    then show ?thesis by (subst for_loop.simps) simp
  qed
qed

lemma fold_plus_sum_list:
  "fold (\<lambda>x s. s + f x) xs (a::'a::comm_monoid_add) = a + sum_list (map f xs)"
  by (induction xs arbitrary: a) (simp_all add: add.assoc)

subsubsection \<open>Memory copy\<close>

lemma memcpy_self: "memcpy d d n = d"
  by (simp add: memcpy_def)

lemma memcpy_all: "length src = n \<Longrightarrow> length dst = n \<Longrightarrow> memcpy dst src n = src"
  by (simp add: memcpy_def)

lemma Matrix_Assign_values_data:
  "snd (Matrix_Assign_values Rows Cols data values) = data"
  by (simp add: Matrix_Assign_values_def memcpy_self)

lemma Vector_Assign_values_roundtrip:
  assumes "length values = Size" and "length data = Size" and "i < Size"
  shows "Vector_Assign_values Size data values = (Inr (), values)"
    and "Vector_At Size (snd (Vector_Assign_values Size data values)) i = Inr (values ! i)"
  using assms by (simp_all add: Vector_Assign_values_def Vector_At_def memcpy_all)

subsubsection \<open>Loops whose body never throws\<close>

lemma for_loop_err_pure:
  "(\<And>j t. i \<le> j \<Longrightarrow> j < n \<Longrightarrow> body j t = Inr (f j t))
     \<Longrightarrow> for_loop_err i n body s = Inr (for_loop i n f s)"
proof (induction i n body s rule: for_loop_err.induct)
  case (1 i n body s)
  show ?case
  proof (cases "i < n")
    case True
    have step: "body i s = Inr (f i s)" using True by (intro 1(2)) simp_all
    have "for_loop_err (i + 1) n body (f i s) = Inr (for_loop (i + 1) n f (f i s))"
      using True step by (intro 1(1)) (simp_all add: 1(2))
    then show ?thesis using True step
      by (subst for_loop_err.simps, subst for_loop.simps) simp
  next
    case False
    then show ?thesis by (subst for_loop_err.simps, subst for_loop.simps) simp
  qed
qed


subsubsection \<open>Loops that write each cell once\<close>

text \<open>
  A nest of two loops that stores \<open>g row col\<close> at the cell \<open>idx row col\<close>, where \<open>idx\<close> is
  injective on the index ranges, leaves \<open>g row col\<close> in that cell and keeps the length.
\<close>

lemma fold_product:
  "fold (\<lambda>r. fold (h r) cs) rs = fold (\<lambda>(r, c). h r c) (List.product rs cs)"
  by (induction rs) (simp_all add: fold_map comp_def)

lemma fold_update_length:
  "length (fold (\<lambda>j d. d[idx j := g j]) js d) = length d"
  by (induction js arbitrary: d) simp_all

lemma fold_update_other:
  "k \<notin> idx ` set js \<Longrightarrow> fold (\<lambda>j d. d[idx j := g j]) js d ! k = d ! k"
  by (induction js arbitrary: d) auto

lemma fold_update_nth:
  "distinct (map idx js) \<Longrightarrow> j \<in> set js \<Longrightarrow> idx j < length d
     \<Longrightarrow> fold (\<lambda>j d. d[idx j := g j]) js d ! idx j = g j"
proof (induction js arbitrary: d)
  case Nil
  then show ?case by simp
next
  case (Cons x js)
  show ?case
  proof (cases "j = x")
    case True
    have "idx x \<notin> idx ` set js" using Cons.prems(1) by simp
    then have "fold (\<lambda>j d. d[idx j := g j]) js (d[idx x := g x]) ! idx x
        = d[idx x := g x] ! idx x"
      by (rule fold_update_other)
    then show ?thesis using True Cons.prems(3) by simp
  next
    case False
    have "distinct (map idx js)" using Cons.prems(1) by simp
    moreover have "j \<in> set js" using False Cons.prems(2) by simp
    moreover have "idx j < length (d[idx x := g x])" using Cons.prems(3) by simp
    ultimately have "fold (\<lambda>j d. d[idx j := g j]) js (d[idx x := g x]) ! idx j = g j"
      by (rule Cons.IH)
    then show ?thesis by simp
  qed
qed

lemma nested_writes:
  fixes idx :: "nat \<Rightarrow> nat \<Rightarrow> nat" and g :: "nat \<Rightarrow> nat \<Rightarrow> 'a"
  assumes inj: "\<And>r c r' c'. r < R \<Longrightarrow> c < C \<Longrightarrow> r' < R \<Longrightarrow> c' < C
                  \<Longrightarrow> idx r c = idx r' c' \<Longrightarrow> r = r' \<and> c = c'"
    and bound: "\<And>r c. r < R \<Longrightarrow> c < C \<Longrightarrow> idx r c < length d0"
  shows "length (for_loop 0 R (\<lambda>row. for_loop 0 C (\<lambda>col d. d[idx row col := g row col])) d0)
           = length d0"
    and "r < R \<Longrightarrow> c < C \<Longrightarrow>
         for_loop 0 R (\<lambda>row. for_loop 0 C (\<lambda>col d. d[idx row col := g row col])) d0
           ! idx r c = g r c"
proof -
  let ?js = "List.product [0..<R] [0..<C]"
  let ?idx = "\<lambda>(r, c). idx r c"
  let ?g = "\<lambda>(r, c). g r c"
  have eq: "for_loop 0 R (\<lambda>row. for_loop 0 C (\<lambda>col d. d[idx row col := g row col])) d0
      = fold (\<lambda>j d. d[?idx j := ?g j]) ?js d0"
  proof -
    have "for_loop 0 R (\<lambda>row. for_loop 0 C (\<lambda>col d. d[idx row col := g row col])) d0
        = fold (\<lambda>row. fold (\<lambda>col d. d[idx row col := g row col]) [0..<C]) [0..<R] d0"
      by (simp add: for_loop_fold [abs_def])
    also have "\<dots> = fold (\<lambda>(r, c) d. d[idx r c := g r c]) ?js d0"
      by (simp add: fold_product)
    also have "(\<lambda>(r, c) d. d[idx r c := g r c]) = (\<lambda>j d. d[?idx j := ?g j])"
      by (simp add: fun_eq_iff)
    finally show ?thesis .
  qed
  show "length (for_loop 0 R (\<lambda>row. for_loop 0 C (\<lambda>col d. d[idx row col := g row col])) d0)
           = length d0"
    unfolding eq by (rule fold_update_length)
  have "inj_on ?idx (set ?js)"
    by (rule inj_onI) (use inj in auto)
  then have dist: "distinct (map ?idx ?js)"
    by (simp add: distinct_map distinct_product)
  assume rc: "r < R" "c < C"
  then have mem: "(r, c) \<in> set ?js" by simp
  have "?idx (r, c) < length d0" using rc bound by simp
  with dist mem have "fold (\<lambda>j d. d[?idx j := ?g j]) ?js d0 ! ?idx (r, c) = ?g (r, c)"
    by (rule fold_update_nth)
  then show "for_loop 0 R (\<lambda>row. for_loop 0 C (\<lambda>col d. d[idx row col := g row col])) d0
           ! idx r c = g r c"
    unfolding eq by simp
qed

subsubsection \<open>Flat indices and checked access inside the matrix\<close>

lemma row_major_inj:
  "c < C \<Longrightarrow> c' < C \<Longrightarrow> r * C + c = r' * C + c' \<Longrightarrow> r = r' \<and> c = (c'::nat)"
proof -
  assume c: "c < C" and c': "c' < C" and eq: "r * C + c = r' * C + c'"
  have "(r * C + c) div C = r" "(r * C + c) mod C = c" using c by simp_all
  moreover have "(r' * C + c') div C = r'" "(r' * C + c') mod C = c'" using c' by simp_all
  ultimately show ?thesis using eq by metis
qed

lemma Matrix_At_rc_inside:
  "Rows * Cols < 2 ^ 64 \<Longrightarrow> row < Rows \<Longrightarrow> col < Cols
     \<Longrightarrow> Matrix_At_rc Rows Cols data row col = Inr (data ! (col * Rows + row))"
  using flat_index_less [of row Rows col Cols]
  by (simp add: Matrix_At_rc_def Matrix_At_def size_t_id)

lemma Matrix_At_rc_write_inside:
  "Rows * Cols < 2 ^ 64 \<Longrightarrow> row < Rows \<Longrightarrow> col < Cols
     \<Longrightarrow> Matrix_At_rc_write Rows Cols data row col v = Inr (data[col * Rows + row := v])"
  using flat_index_less [of row Rows col Cols]
  by (simp add: Matrix_At_rc_write_def Matrix_At_write_def size_t_id)

subsubsection \<open>The loops of diagonal assignment\<close>




subsubsection \<open>The loops of the matrix product\<close>

text \<open>
  When the element counts fit \<^verbatim>\<open>size_t\<close>, \<^verbatim>\<open>Multiply\<close> never throws, and the cell at
  flat index \<open>col * Rows + row\<close> of its result is the sum over \<open>m < Cols\<close> of
  \<open>this(row, m) * mat(m, col)\<close>.
\<close>

lemma dot_loop:
  "for_loop 0 C (\<lambda>m dot. dot + f m) (0::'a::comm_monoid_add) = (\<Sum>m\<leftarrow>[0..<C]. f m)"
proof -
  have "for_loop 0 C (\<lambda>m dot. dot + f m) 0 = fold (\<lambda>m dot. dot + f m) [0..<C] 0"
    by (rule for_loop_fold)
  then show ?thesis by (simp add: fold_plus_sum_list)
qed





subsubsection \<open>Loops that stop at an exception\<close>

lemma bind_result_Inr: "bind_result (Inr x) f = f x"
  by (simp add: bind_result_def)

lemma bind_result_Inl: "bind_result (Inl e) f = Inl e"
  by (simp add: bind_result_def)

lemma for_loop_err_step:
  "i < n \<Longrightarrow> for_loop_err i n body s = bind_result (body i s) (for_loop_err (i + 1) n body)"
  by (simp only: for_loop_err.simps [of i n body s] bind_result_def if_True)

lemma for_loop_err_done: "\<not> i < n \<Longrightarrow> for_loop_err i n body s = Inr s"
  using for_loop_err.simps [of i n body s] by simp

lemma for_loop_err_split:
  "i \<le> j \<Longrightarrow> j \<le> n \<Longrightarrow>
     for_loop_err i n body s = bind_result (for_loop_err i j body s) (for_loop_err j n body)"
proof (induction i n body s rule: for_loop_err.induct)
  case (1 i n body s)
  show ?case
  proof (cases "i < j")
    case True
    then have "i < n" using 1(3) by simp
    show ?thesis
    proof (cases "body i s")
      case (Inl e)
      then show ?thesis using True \<open>i < n\<close>
        by (simp add: for_loop_err_step bind_result_Inl)
    next
      case (Inr s')
      have "for_loop_err (i + 1) n body s'
          = bind_result (for_loop_err (i + 1) j body s') (for_loop_err j n body)"
        using \<open>i < n\<close> Inr True 1(3) by (intro 1(1)) simp_all
      then show ?thesis using True \<open>i < n\<close> Inr
        by (simp add: for_loop_err_step bind_result_Inr)
    qed
  next
    case False
    then have "i = j" using 1(2) by simp
    then show ?thesis by (simp add: for_loop_err_done bind_result_Inr)
  qed
qed

subsection \<open>Bulk assignment\<close>

text \<open>
  C1 (the code at the failing input). A \<^verbatim>\<open>Matrix<int, 2, 2>\<close> that holds \<open>0, 0, 0, 0\<close> is
  assigned the sequence \<open>1, 2, 3, 4\<close> of the right length 4. The call succeeds, but the
  array is unchanged and \<^verbatim>\<open>At(0)\<close> reads back \<open>0\<close>, not the first element \<open>1\<close> of the
  sequence: the copy in \<^verbatim>\<open>Matrix::Assign\<close> never reads its argument.
\<close>

theorem Matrix_Assign_values_no_roundtrip:
  "Matrix_Assign_values 2 2 [0, 0, 0, 0] [1, 2, 3, 4 :: int] = (Inr (), [0, 0, 0, 0])
   \<and> Matrix_At 2 2 (snd (Matrix_Assign_values 2 2 [0, 0, 0, 0] [1, 2, 3, 4 :: int])) 0 = Inr 0
   \<and> [1, 2, 3, 4 :: int] ! 0 = 1"
  by (simp add: Matrix_Assign_values_def Matrix_At_def memcpy_def size_t_def)

text \<open>
  C10. Bulk assignment is atomic on failure: when the length of the source sequence
  differs from \<open>Size\<close> (Vector) or from \<open>Rows * Cols\<close> (Matrix), \<^verbatim>\<open>Assign\<close> throws the
  size-mismatch error and the array of the container is what it was before the call.
\<close>

theorem Assign_values_atomic_on_failure:
  "(length values \<noteq> Size \<longrightarrow>
      Vector_Assign_values Size data values = (Inl SizeMismatch, data))
   \<and> (Rows * Cols < 2 ^ 64 \<longrightarrow> length values \<noteq> Rows * Cols \<longrightarrow>
      Matrix_Assign_values Rows Cols mdata values = (Inl SizeMismatch, mdata))"
  by (simp add: Vector_Assign_values_def Matrix_Assign_values_def size_t_id)

theorem Assign_values_atomic_on_failure_witness:
  "length [7, 8 :: int] \<noteq> 3
   \<and> Vector_Assign_values 3 [1, 2, 3] [7, 8 :: int] = (Inl SizeMismatch, [1, 2, 3])
   \<and> (2::nat) * 2 < 2 ^ 64 \<and> length [7, 8 :: int] \<noteq> 2 * 2
   \<and> Matrix_Assign_values 2 2 [1, 2, 3, 4] [7, 8 :: int] = (Inl SizeMismatch, [1, 2, 3, 4])"
  using Assign_values_atomic_on_failure
    [of "[7, 8 :: int]" 3 "[1, 2, 3]" 2 2 "[1, 2, 3, 4]"]
  by simp

subsection \<open>Diagonal assignment\<close>

text \<open>
  C2 (the code at the failing input). \<^verbatim>\<open>Assign(5)\<close> on a \<^verbatim>\<open>Matrix<int, 2, 3>\<close>: the
  counter \<open>i\<close> advances with \<open>col\<close> innermost, so the value goes to the flat indices
  \<open>row * Cols + col\<close> with \<open>row = col\<close>, that is 0 and 4. In the column-major layout of
  \<^verbatim>\<open>At(row, col)\<close> the diagonal entry \<open>(1, 1)\<close> is flat index \<open>1 * 2 + 1 = 3\<close>; it holds 0,
  and the off-diagonal entry \<open>(0, 2)\<close>, flat index 4, holds 5.
\<close>

theorem Matrix_Assign_diagonal_nonsquare:
  "Matrix_Assign_diagonal 2 3 [9, 9, 9, 9, 9, 9] (5::int) = [5, 0, 0, 0, 5, 0]
   \<and> Matrix_At_rc 2 3 (Matrix_Assign_diagonal 2 3 [9, 9, 9, 9, 9, 9] (5::int)) 1 1 = Inr 0
   \<and> Matrix_At_rc 2 3 (Matrix_Assign_diagonal 2 3 [9, 9, 9, 9, 9, 9] (5::int)) 0 2 = Inr 5"
  by (simp add: Matrix_Assign_diagonal_def run_defs)

subsection \<open>Checked access by row and column\<close>

text \<open>
  C3 (counterexample to the claim as stated). On a \<^verbatim>\<open>Matrix<int, 2, 2>\<close> the call
  \<^verbatim>\<open>At(2, 0)\<close> has the out-of-range row 2, but its flat index \<open>0 * 2 + 2 = 2\<close> is below
  \<open>Rows * Cols = 4\<close>: the call does not raise and returns the element of row 0, column 1.
\<close>

theorem Matrix_At_rc_row_out_of_range:
  "(2::nat) \<ge> 2 \<and> Matrix_At_rc 2 2 [10, 20, 30, 40 :: int] 2 0 = Inr 30
   \<and> Matrix_At_rc 2 2 [10, 20, 30, 40 :: int] 2 0 \<noteq> Inl IndexOutOfRange"
  by (simp add: run_defs)

text \<open>
  C3 (amended). For a matrix whose element count \<open>Rows * Cols\<close> fits \<^verbatim>\<open>size_t\<close>,
  \<^verbatim>\<open>At(row, col)\<close> computes the flat index \<open>col * Rows + row\<close> in \<^verbatim>\<open>size_t\<close> and delegates
  to the checked \<^verbatim>\<open>At(index)\<close>. It raises IndexOutOfRange exactly when that flat index is
  at least \<open>Rows * Cols\<close>. For \<open>row < Rows\<close> and \<open>col < Cols\<close> it returns the element at
  flat index \<open>col * Rows + row\<close> without error. For \<open>col \<ge> Cols\<close> it raises whenever the
  index computation does not wrap. An out-of-range row alone need not raise.
\<close>

theorem Matrix_At_rc_flat_index:
  "Rows * Cols < 2 ^ 64 \<Longrightarrow>
     Matrix_At_rc Rows Cols data row col = Matrix_At Rows Cols data (size_t (col * Rows + row))
   \<and> (Matrix_At_rc Rows Cols data row col = Inl IndexOutOfRange
        \<longleftrightarrow> Rows * Cols \<le> size_t (col * Rows + row))
   \<and> (row < Rows \<and> col < Cols \<longrightarrow>
        Matrix_At_rc Rows Cols data row col = Inr (data ! (col * Rows + row)))
   \<and> (Cols \<le> col \<and> col * Rows + row < 2 ^ 64 \<longrightarrow>
        Matrix_At_rc Rows Cols data row col = Inl IndexOutOfRange)"
proof -
  assume small: "Rows * Cols < 2 ^ 64"
  have a: "Matrix_At_rc Rows Cols data row col = Inl IndexOutOfRange
        \<longleftrightarrow> Rows * Cols \<le> size_t (col * Rows + row)"
    using small by (simp add: Matrix_At_rc_def Matrix_At_def size_t_id)
  have b: "Matrix_At_rc Rows Cols data row col = Inr (data ! (col * Rows + row))"
    if "row < Rows" "col < Cols"
  proof -
    have lt: "col * Rows + row < Rows * Cols" using that by (rule flat_index_less)
    then have "size_t (col * Rows + row) = col * Rows + row"
      using small by (simp add: size_t_id)
    then show ?thesis using lt small by (simp add: Matrix_At_rc_def Matrix_At_def size_t_id)
  qed
  have c: "Matrix_At_rc Rows Cols data row col = Inl IndexOutOfRange"
    if "Cols \<le> col" "col * Rows + row < 2 ^ 64"
  proof -
    have "Rows * Cols \<le> Rows * col" using that(1) by (rule mult_le_mono2)
    also have "Rows * col = col * Rows" by (rule mult.commute)
    also have "col * Rows \<le> col * Rows + row" by (rule le_add1)
    finally have "Rows * Cols \<le> col * Rows + row" .
    then show ?thesis using that(2) a by (simp add: size_t_id)
  qed
  show ?thesis using a b c by (simp add: Matrix_At_rc_def)
qed

theorem Matrix_At_rc_flat_index_witness:
  "(2::nat) * 2 < 2 ^ 64 \<and> (1::nat) < 2
   \<and> Matrix_At_rc 2 2 [10, 20, 30, 40 :: int] 1 1 = Inr 40
   \<and> (2::nat) \<le> 2 \<and> (2::nat) * 2 + 0 < 2 ^ 64
   \<and> Matrix_At_rc 2 2 [10, 20, 30, 40 :: int] 0 2 = Inl IndexOutOfRange"
proof -
  have small: "(2::nat) * 2 < 2 ^ 64" by simp
  note inside = Matrix_At_rc_flat_index
    [OF small, of "[10, 20, 30, 40 :: int]" 1 1, THEN conjunct2, THEN conjunct2, THEN conjunct1]
  note outside = Matrix_At_rc_flat_index
    [OF small, of "[10, 20, 30, 40 :: int]" 0 2, THEN conjunct2, THEN conjunct2, THEN conjunct2]
  from inside outside show ?thesis by simp
qed

subsection \<open>Magnitude\<close>

lemmas magnitude_defs = Vector_Magnitude_def int_ops_def double_ops_def int_add_square_def
  narrow_def in_signed_range_def zero_double_def double_of_real_def DBL_OVERFLOW_def
  for_loop_err.simps bind_result_def Let_def

text \<open>
  The scenario: for the \<^verbatim>\<open>Vector<double, 3>\<close> holding \<open>{1, 2, 3}\<close>, \<^verbatim>\<open>Magnitude()\<close> is
  \<^verbatim>\<open>sqrt\<close> of 14.
\<close>

lemma Vector_Magnitude_double_scenario:
  "Vector_Magnitude double_ops 3 [Finite 1, Finite 2, Finite 3] = Inr (sqrt_double (Finite 14))
   \<and> sqrt_double (Finite 14) = Finite (sqrt 14)"
  by (simp add: magnitude_defs)

text \<open>
  Other element types. For \<^verbatim>\<open>Vector<int8_t, 1>\<close> holding 12 the sum 144 is stored into
  the \<^verbatim>\<open>int8_t\<close> accumulator as \<open>-112\<close> and \<^verbatim>\<open>Magnitude()\<close> is NaN. For
  \<^verbatim>\<open>Vector<uint32_t, 1>\<close> holding \<open>2 ^ 16\<close> the square wraps to 0. For
  \<^verbatim>\<open>Vector<uint16_t, 1>\<close> holding 65535 the promoted product overflows \<^verbatim>\<open>int\<close>. For
  \<^verbatim>\<open>Vector<double, 2>\<close> holding \<open>2 ^ 600\<close> twice the squares overflow and the result is
  infinite.
\<close>

lemma Vector_Magnitude_int8_NaN:
  "Vector_Magnitude (int_ops True 8) 1 [12] = Inr NaN"
  by (simp add: magnitude_defs)

lemma Vector_Magnitude_uint32_wraps:
  "Vector_Magnitude (int_ops False 32) 1 [2 ^ 16] = Inr (Finite 0)"
  by (simp add: magnitude_defs)

lemma Vector_Magnitude_uint16_undefined:
  "Vector_Magnitude (int_ops False 16) 1 [65535] = Inl UndefinedBehaviour"
  by (simp add: magnitude_defs)

lemma Vector_Magnitude_double_overflow:
  "Vector_Magnitude double_ops 2 [Finite (2 ^ 600), Finite (2 ^ 600)] = Inr PosInf"
  by (simp add: magnitude_defs)

text \<open>
  C4 (the code at the failing input). For \<^verbatim>\<open>Vector<uint8_t, 1>\<close> holding 16 the promoted
  product is 256 and the sum 256 is stored into the \<^verbatim>\<open>uint8_t\<close> accumulator as 0, so
  \<^verbatim>\<open>Magnitude()\<close> is the square root of 0, while the square root of the sum of squares
  is 16.
\<close>

theorem Vector_Magnitude_uint8_wraps:
  "Vector_Magnitude (int_ops False 8) 1 [16] = Inr (Finite 0)
   \<and> sqrt_double (Finite (real_of_int (16 * 16))) = Finite 16"
  by (simp add: magnitude_defs)

subsection \<open>Matrix times vector\<close>

text \<open>
  What \<^verbatim>\<open>Multiply(const Vector<Type, Rows>&)\<close> computes. When the argument has at least
  \<open>Cols\<close> elements every read is in bounds and entry \<open>row\<close> of the result is the sum over
  \<open>m < Cols\<close> of \<open>this(row, m) * vec[m]\<close>. When the argument has \<open>Rows\<close> elements, as its
  type says, and the matrix has more columns than rows, the first row already reads
  \<^verbatim>\<open>vec.data[Rows]\<close>, past the end.
\<close>

lemma Matrix_Multiply_vec_dot:
  fixes data :: "'a::semiring_0 list"
  assumes small: "Rows * Cols < 2 ^ 64" and row: "row < Rows" and n: "n \<le> Cols"
    and vec: "n \<le> length vec"
  shows "for_loop_err 0 n (\<lambda>col dot.
            bind_result (Matrix_At_rc Rows Cols data row col) (\<lambda>x.
            bind_result (raw_read vec col) (\<lambda>y.
              Inr (dot + x * y)))) 0
         = Inr (\<Sum>col\<leftarrow>[0..<n]. data ! (col * Rows + row) * vec ! col)"
proof -
  have "for_loop_err 0 n (\<lambda>col dot.
            bind_result (Matrix_At_rc Rows Cols data row col) (\<lambda>x.
            bind_result (raw_read vec col) (\<lambda>y.
              Inr (dot + x * y)))) 0
      = Inr (for_loop 0 n (\<lambda>col dot. dot + data ! (col * Rows + row) * vec ! col) 0)"
  proof (rule for_loop_err_pure)
    fix col u
    assume "col < n"
    then show "bind_result (Matrix_At_rc Rows Cols data row col) (\<lambda>x.
          bind_result (raw_read vec col) (\<lambda>y. Inr (u + x * y)))
        = Inr (u + data ! (col * Rows + row) * vec ! col)"
      using small row n vec by (simp add: bind_result_def Matrix_At_rc_inside raw_read_def)
  qed
  then show ?thesis by (simp only: dot_loop)
qed

lemma Matrix_Multiply_vec_in_bounds:
  fixes data :: "'a::semiring_0 list"
  assumes small: "Rows * Cols < 2 ^ 64" and init: "length init = Rows"
    and vec: "Cols \<le> length vec"
  shows "Matrix_Multiply_vec Rows Cols init data vec
    = Inr (map (\<lambda>row. \<Sum>m\<leftarrow>[0..<Cols]. data ! (m * Rows + row) * vec ! m) [0..<Rows])"
proof -
  let ?g = "\<lambda>row. \<Sum>m\<leftarrow>[0..<Cols]. data ! (m * Rows + row) * vec ! m"
  let ?res = "for_loop 0 Rows (\<lambda>row d. d[row := ?g row]) init"
  have run: "Matrix_Multiply_vec Rows Cols init data vec = Inr ?res"
    unfolding Matrix_Multiply_vec_def
  proof (rule for_loop_err_pure)
    fix row u
    assume row: "row < Rows"
    show "bind_result
         (for_loop_err 0 Cols (\<lambda>col dot.
            bind_result (Matrix_At_rc Rows Cols data row col) (\<lambda>x.
            bind_result (raw_read vec col) (\<lambda>y.
              Inr (dot + x * y))))
          0)
         (\<lambda>dot. Inr (u[row := dot]))
       = Inr (u[row := ?g row])"
      unfolding Matrix_Multiply_vec_dot [OF small row order_refl vec]
      by (simp add: bind_result_def)
  qed
  have fold: "?res = fold (\<lambda>j d. d[j := ?g j]) [0..<Rows] init"
    by (rule for_loop_fold)
  have "?res = map ?g [0..<Rows]"
  proof (rule nth_equalityI)
    show "length ?res = length (map ?g [0..<Rows])"
      unfolding fold using init by (simp add: fold_update_length)
  next
    fix k
    assume "k < length ?res"
    then have k: "k < Rows" unfolding fold using init by (simp add: fold_update_length)
    have "fold (\<lambda>j d. d[(\<lambda>j. j) j := ?g j]) [0..<Rows] init ! (\<lambda>j. j) k = ?g k"
      by (rule fold_update_nth) (use k init in simp_all)
    then show "?res ! k = map ?g [0..<Rows] ! k" unfolding fold using k by simp
  qed
  then show ?thesis using run by simp
qed

lemma Matrix_Multiply_vec_wide:
  fixes data :: "'a::semiring_0 list"
  assumes small: "Rows * Cols < 2 ^ 64" and pos: "0 < Rows"
    and vec: "length vec = Rows" and wide: "Rows < Cols"
  shows "Matrix_Multiply_vec Rows Cols init data vec = Inl UndefinedBehaviour"
proof -
  let ?body = "\<lambda>col dot.
            bind_result (Matrix_At_rc Rows Cols data 0 col) (\<lambda>x.
            bind_result (raw_read vec col) (\<lambda>y.
              Inr (dot + x * y)))"
  have le: "Rows \<le> Cols" using wide by simp
  have first: "for_loop_err 0 Rows ?body 0
      = Inr (\<Sum>col\<leftarrow>[0..<Rows]. data ! (col * Rows + 0) * vec ! col)"
    using small pos le vec by (intro Matrix_Multiply_vec_dot) simp_all
  have "?body Rows u = Inl UndefinedBehaviour" for u
    using wide small pos vec
    by (simp add: bind_result_def Matrix_At_rc_inside raw_read_def)
  then have stop: "for_loop_err Rows Cols ?body u = Inl UndefinedBehaviour" for u
    using wide by (simp only: for_loop_err_step bind_result_Inl)
  have "for_loop_err 0 Cols ?body 0
      = bind_result (for_loop_err 0 Rows ?body 0) (for_loop_err Rows Cols ?body)"
    using le by (intro for_loop_err_split) simp_all
  then have dot: "for_loop_err 0 Cols ?body 0 = Inl UndefinedBehaviour"
    by (simp only: first bind_result_Inr stop)
  show ?thesis
    unfolding Matrix_Multiply_vec_def
    using pos by (simp only: for_loop_err_step dot bind_result_Inl)
qed

text \<open>
  C5 (the code at the failing input). \<^verbatim>\<open>Multiply\<close> of a \<^verbatim>\<open>Matrix<int, 1, 2>\<close> takes a
  \<^verbatim>\<open>Vector<int, 1>\<close>, a vector of \<open>Rows = 1\<close> elements and not of \<open>Cols = 2\<close>; the inner
  loop still runs over both columns and reads \<^verbatim>\<open>vec.data[1]\<close>, past the end of the
  argument.
\<close>

theorem Matrix_Multiply_vec_reads_past_end:
  "Matrix_Multiply_vec 1 2 [0] [1, 1] [5 :: int] = Inl UndefinedBehaviour"
  by (simp add: Matrix_Multiply_vec_def run_defs)

subsection \<open>Translation\<close>

text \<open>
  \<^verbatim>\<open>Translation\<close> returns the storage of the fresh matrix as it was, for every \<open>delta\<close>.
  Had the listed sequence been stored, the product with \<open>{0, 0, 0, 1}\<close> would be
  \<open>{1, 2, 3, 1}\<close>. The elements are written as reals here: only the values 0, 1, 2 and 3
  occur, and sums and products of them are exact in \<^verbatim>\<open>double\<close>.
\<close>

lemma Matrix_Translation_keeps_storage: "Matrix_Translation init delta = Inr init"
  by (simp add: Matrix_Translation_def Matrix_ctor_values_def Matrix_Assign_values_def
      memcpy_self size_t_def)

lemma translation_matrix_times_point:
  "Matrix_Multiply_vec 4 4 [0, 0, 0, 0]
     [1, 0, 0, 0,  0, 1, 0, 0,  0, 0, 1, 0,  1, 2, 3, 1] [0, 0, 0, 1 :: real]
   = Inr [1, 2, 3, 1]"
  by (simp add: Matrix_Multiply_vec_def run_defs)

text \<open>
  C6 (the code at the failing input). \<^verbatim>\<open>Translation({1, 2, 3})\<close> builds its result with
  the constructor from a sequence, whose \<^verbatim>\<open>Assign\<close> copies nothing: the matrix keeps the
  contents its storage had, here sixteen zeros, whatever \<open>delta\<close> is, and its product with
  \<open>{0, 0, 0, 1}\<close> is \<open>{0, 0, 0, 0}\<close>, not \<open>{1, 2, 3, 1}\<close>.
\<close>

theorem Matrix_Translation_not_translation:
  "Matrix_Translation [0, 0, 0, 0,  0, 0, 0, 0,  0, 0, 0, 0,  0, 0, 0, 0] [1, 2, 3 :: real]
     = Inr [0, 0, 0, 0,  0, 0, 0, 0,  0, 0, 0, 0,  0, 0, 0, 0]
   \<and> Matrix_Multiply_vec 4 4 [0, 0, 0, 0]
       [0, 0, 0, 0,  0, 0, 0, 0,  0, 0, 0, 0,  0, 0, 0, 0] [0, 0, 0, 1 :: real]
     = Inr [0, 0, 0, 0]"
  by (simp add: Matrix_Translation_def Matrix_ctor_values_def Matrix_Assign_values_def
      memcpy_def Matrix_Multiply_vec_def run_defs)

subsection \<open>Cross product\<close>












subsection \<open>Transpose\<close>

text \<open>
  The loop nest of \<^verbatim>\<open>Transpose\<close>. When the element count fits \<^verbatim>\<open>size_t\<close> it never throws,
  and the cell at flat index \<open>k\<close> of its result is the element \<open>(k div Cols, k mod Cols)\<close>
  of the source.
\<close>

lemma Matrix_Transpose_body_loops:
  assumes small: "Rows * Cols < 2 ^ 64"
  shows "Matrix_Transpose_body Rows Cols init data
    = Inr (for_loop 0 Rows (\<lambda>row.
             for_loop 0 Cols (\<lambda>col d. d[row * Cols + col := data ! (col * Rows + row)])) init)"
proof -
  have small': "Cols * Rows < 2 ^ 64" using small by (simp add: mult.commute)
  have inner: "for_loop_err 0 Cols (\<lambda>col newMat.
         bind_result (Matrix_At_rc Rows Cols data row col) (\<lambda>x.
           Matrix_At_rc_write Cols Rows newMat col row x)) t
       = Inr (for_loop 0 Cols (\<lambda>col d. d[row * Cols + col := data ! (col * Rows + row)]) t)"
    if row: "row < Rows" for row t
  proof (rule for_loop_err_pure)
    fix col u
    assume "col < Cols"
    then show "bind_result (Matrix_At_rc Rows Cols data row col)
          (\<lambda>x. Matrix_At_rc_write Cols Rows u col row x)
        = Inr (u[row * Cols + col := data ! (col * Rows + row)])"
      using row small small'
      by (simp add: bind_result_def Matrix_At_rc_inside Matrix_At_rc_write_inside)
  qed
  show ?thesis
    unfolding Matrix_Transpose_body_def
    by (rule for_loop_err_pure) (simp add: inner)
qed

lemma Matrix_Transpose_body_closed_form:
  assumes small: "Rows * Cols < 2 ^ 64" and len: "length init = Rows * Cols"
  shows "Matrix_Transpose_body Rows Cols init data
    = Inr (map (\<lambda>k. data ! ((k mod Cols) * Rows + k div Cols)) [0..<Rows * Cols])"
proof -
  let ?res = "for_loop 0 Rows (\<lambda>row.
      for_loop 0 Cols (\<lambda>col d. d[row * Cols + col := data ! (col * Rows + row)])) init"
  have inj: "r = r' \<and> c = c'"
    if "r < Rows" "c < Cols" "r' < Rows" "c' < Cols" "r * Cols + c = r' * Cols + c'"
    for r c r' c'
    using that by (intro row_major_inj [of c Cols c' r r'])
  have bound: "r * Cols + c < length init" if "r < Rows" "c < Cols" for r c
    using flat_index_less [of c Cols r Rows] that len by (simp add: mult.commute)
  have "length ?res = length init"
    by (rule nested_writes(1)) (rule inj, assumption+, rule bound, assumption+)
  then have l: "length ?res = Rows * Cols" using len by simp
  have n: "?res ! (r * Cols + c) = data ! (c * Rows + r)" if "r < Rows" "c < Cols" for r c
    by (rule nested_writes(2) [where idx = "\<lambda>r c. r * Cols + c"
          and g = "\<lambda>r c. data ! (c * Rows + r)"])
      (rule inj, assumption+, rule bound, assumption+, rule that, rule that)
  have "?res = map (\<lambda>k. data ! ((k mod Cols) * Rows + k div Cols)) [0..<Rows * Cols]"
  proof (rule nth_equalityI)
    show "length ?res = length (map (\<lambda>k. data ! ((k mod Cols) * Rows + k div Cols)) [0..<Rows * Cols])"
      using l by simp
  next
    fix k
    assume "k < length ?res"
    then have k: "k < Rows * Cols" using l by simp
    then have pos: "0 < Cols" by (cases Cols) simp_all
    have r: "k div Cols < Rows" using k by (simp add: less_mult_imp_div_less mult.commute)
    have c: "k mod Cols < Cols" using pos by simp
    have "?res ! ((k div Cols) * Cols + k mod Cols) = data ! ((k mod Cols) * Rows + k div Cols)"
      using r c by (rule n)
    then show "?res ! k = map (\<lambda>k. data ! ((k mod Cols) * Rows + k div Cols)) [0..<Rows * Cols] ! k"
      using k by simp
  qed
  then show ?thesis by (simp only: Matrix_Transpose_body_loops [OF small])
qed

text \<open>
  On a result matrix of the right size the loop nest returns without error the matrix \<open>t\<close>
  with \<open>t(c, r) = m(r, c)\<close>, and run on \<open>t\<close> it returns the original array.
\<close>

lemma Matrix_Transpose_body_involution:
  assumes small: "Rows * Cols < 2 ^ 64"
    and len: "length data = Rows * Cols"
    and init: "length init = Rows * Cols" and init': "length init' = Rows * Cols"
  shows "bind_result (Matrix_Transpose_body Rows Cols init data) (Matrix_Transpose_body Cols Rows init')
           = Inr data
     \<and> (\<exists>t. Matrix_Transpose_body Rows Cols init data = Inr t \<and> length t = Cols * Rows
           \<and> (\<forall>r<Rows. \<forall>c<Cols. Matrix_At_rc Cols Rows t c r = Matrix_At_rc Rows Cols data r c))"
proof -
  let ?t = "map (\<lambda>k. data ! ((k mod Cols) * Rows + k div Cols)) [0..<Rows * Cols]"
  have small': "Cols * Rows < 2 ^ 64" using small by (simp add: mult.commute)
  have t: "Matrix_Transpose_body Rows Cols init data = Inr ?t"
    using small init by (rule Matrix_Transpose_body_closed_form)
  have tt: "Matrix_Transpose_body Cols Rows init' ?t
      = Inr (map (\<lambda>k. ?t ! ((k mod Rows) * Cols + k div Rows)) [0..<Cols * Rows])"
    using small' init' by (intro Matrix_Transpose_body_closed_form) (simp_all add: mult.commute)
  have entry: "?t ! (r * Cols + c) = data ! (c * Rows + r)" if "r < Rows" "c < Cols" for r c
  proof -
    have "r * Cols + c < Rows * Cols"
      using flat_index_less [of c Cols r Rows] that by (simp add: mult.commute)
    then show ?thesis using that by simp
  qed
  have roundtrip: "map (\<lambda>k. ?t ! ((k mod Rows) * Cols + k div Rows)) [0..<Cols * Rows] = data"
  proof (rule nth_equalityI)
    show "length (map (\<lambda>k. ?t ! ((k mod Rows) * Cols + k div Rows)) [0..<Cols * Rows])
        = length data"
      using len by (simp add: mult.commute)
  next
    fix k
    assume "k < length (map (\<lambda>k. ?t ! ((k mod Rows) * Cols + k div Rows)) [0..<Cols * Rows])"
    then have k: "k < Cols * Rows" by simp
    then have pos: "0 < Rows" by (cases Rows) simp_all
    have c: "k div Rows < Cols" using k by (simp add: less_mult_imp_div_less)
    have r: "k mod Rows < Rows" using pos by simp
    have "?t ! ((k mod Rows) * Cols + k div Rows) = data ! ((k div Rows) * Rows + k mod Rows)"
      using r c by (rule entry)
    then show "map (\<lambda>k. ?t ! ((k mod Rows) * Cols + k div Rows)) [0..<Cols * Rows] ! k = data ! k"
      using k by simp
  qed
  have twice: "bind_result (Matrix_Transpose_body Rows Cols init data)
      (Matrix_Transpose_body Cols Rows init') = Inr data"
    using t tt roundtrip by (simp add: bind_result_def)
  have at: "Matrix_At_rc Cols Rows ?t c r = Matrix_At_rc Rows Cols data r c"
    if "r < Rows" "c < Cols" for r c
    using that small small' entry [OF that] by (simp add: Matrix_At_rc_inside)
  have "length ?t = Cols * Rows" by (simp add: mult.commute)
  with t at have "\<exists>t. Matrix_Transpose_body Rows Cols init data = Inr t \<and> length t = Cols * Rows
      \<and> (\<forall>r<Rows. \<forall>c<Cols. Matrix_At_rc Cols Rows t c r = Matrix_At_rc Rows Cols data r c)"
    by blast
  with twice show ?thesis by simp
qed

text \<open>
  The scenario of the 2 by 2 matrix with column-major data \<open>{1, 2, 3, 4}\<close>: the loop nest
  leaves the data \<open>{1, 3, 2, 4}\<close>.
\<close>

lemma Matrix_Transpose_body_example:
  "Matrix_Transpose_body 2 2 [0, 0, 0, 0] [1, 2, 3, 4 :: int] = Inr [1, 3, 2, 4]"
  by (simp add: Matrix_Transpose_body_def run_defs)

lemma Matrix_Transpose_ill_formed: "Matrix_Transpose Rows Cols init data = Inl IllFormed"
  by (simp add: Matrix_Transpose_def Matrix_construct_def bind_result_def)

text \<open>
  C7 (the code at the failing input). \<^verbatim>\<open>Transpose()\<close> on a \<^verbatim>\<open>Matrix<int, 2, 2>\<close> holding
  \<open>{1, 2, 3, 4}\<close>: the declaration \<^verbatim>\<open>newMat(Cols, Rows)\<close> selects no constructor, so the
  member function is ill-formed and no transposed matrix is returned.
\<close>

theorem Matrix_Transpose_no_constructor:
  "Matrix_Transpose 2 2 [0, 0, 0, 0] [1, 2, 3, 4 :: int] = Inl IllFormed"
  by (simp add: Matrix_Transpose_def Matrix_construct_def bind_result_def)

subsection \<open>Identity\<close>



end
